theory Spec2Isabelle
  imports Main
begin

section \<open>Configuration and screening thresholds\<close>

text \<open>
  The module \<^verbatim>\<open>mental_health_app.py\<close> reads two things from outside the program that the
  verified parts depend on: the digest computed by \<^verbatim>\<open>hashlib.sha256\<close> inside
  \<^verbatim>\<open>hash_password\<close>, and the environment variable \<^verbatim>\<open>MOD_PASSWORD\<close>. Both are
  taken as parameters, collected in a record; no property below depends on which digest
  function is supplied.
\<close>

record config =
  hash_password :: "string \<Rightarrow> string"
  MOD_PASSWORD :: string

text \<open>
  A Python \<^verbatim>\<open>range(a, b)\<close> with step 1 is kept as the pair of its bounds, and
  \<^verbatim>\<open>x in range(a, b)\<close> on an integer \<open>x\<close> is \<open>a \<le> x < b\<close>.
\<close>

type_synonym range = "int \<times> int"

definition in_range :: "int \<Rightarrow> range \<Rightarrow> bool" where
  "in_range x r = (fst r \<le> x \<and> x < snd r)"

definition PHQ9_THRESHOLDS :: "string \<rightharpoonup> range" where
  "PHQ9_THRESHOLDS =
     [''none_mild'' \<mapsto> (0, 10),
      ''moderate'' \<mapsto> (10, 15),
      ''moderately_severe'' \<mapsto> (15, 20),
      ''severe'' \<mapsto> (20, 100)]"

definition GAD7_THRESHOLDS :: "string \<rightharpoonup> range" where
  "GAD7_THRESHOLDS =
     [''none_mild'' \<mapsto> (0, 10),
      ''moderate'' \<mapsto> (10, 15),
      ''severe'' \<mapsto> (15, 22)]"

text \<open>
  Subscripting a dictionary raises \<^verbatim>\<open>KeyError\<close> on a missing key, reading an attribute of
  the session state that was never set raises \<^verbatim>\<open>AttributeError\<close>. The login form reports
  a failed login with \<^verbatim>\<open>st.error("Invalid username or password")\<close>, which is the outcome
  \<open>InvalidCredentials\<close>.
\<close>

datatype error = KeyError | AttributeError | InvalidCredentials

definition subscript :: "('k \<rightharpoonup> 'v) \<Rightarrow> 'k \<Rightarrow> error + 'v" where
  "subscript d k = (case d k of None \<Rightarrow> Inl KeyError | Some v \<Rightarrow> Inr v)"

section \<open>The categorize step of \<^verbatim>\<open>screening_page\<close>\<close>

text \<open>
  Lines 235--239 (PHQ-9) and 276--279 (GAD-7): the label starts as \<^verbatim>\<open>"Unknown"\<close> and the
  first band of the \<^verbatim>\<open>if\<close>/\<^verbatim>\<open>elif\<close> chain that contains the total replaces it.
\<close>

definition phq9_category :: "int \<Rightarrow> error + string" where
  "phq9_category total_score =
     (case subscript PHQ9_THRESHOLDS ''none_mild'' of Inl e \<Rightarrow> Inl e | Inr r1 \<Rightarrow>
      if in_range total_score r1 then Inr ''None to Mild Depression'' else
      case subscript PHQ9_THRESHOLDS ''moderate'' of Inl e \<Rightarrow> Inl e | Inr r2 \<Rightarrow>
      if in_range total_score r2 then Inr ''Moderate Depression'' else
      case subscript PHQ9_THRESHOLDS ''moderately_severe'' of Inl e \<Rightarrow> Inl e | Inr r3 \<Rightarrow>
      if in_range total_score r3 then Inr ''Moderately Severe Depression'' else
      case subscript PHQ9_THRESHOLDS ''severe'' of Inl e \<Rightarrow> Inl e | Inr r4 \<Rightarrow>
      if in_range total_score r4 then Inr ''Severe Depression'' else
      Inr ''Unknown'')"

definition gad7_category :: "int \<Rightarrow> error + string" where
  "gad7_category total_score =
     (case subscript GAD7_THRESHOLDS ''none_mild'' of Inl e \<Rightarrow> Inl e | Inr r1 \<Rightarrow>
      if in_range total_score r1 then Inr ''None to Mild Anxiety'' else
      case subscript GAD7_THRESHOLDS ''moderate'' of Inl e \<Rightarrow> Inl e | Inr r2 \<Rightarrow>
      if in_range total_score r2 then Inr ''Moderate Anxiety'' else
      case subscript GAD7_THRESHOLDS ''severe'' of Inl e \<Rightarrow> Inl e | Inr r3 \<Rightarrow>
      if in_range total_score r3 then Inr ''Severe Anxiety'' else
      Inr ''Unknown'')"

section \<open>Credential store and result store\<close>

text \<open>
  The SQLite tables \<^verbatim>\<open>users\<close> and \<^verbatim>\<open>screening_results\<close> created by \<^verbatim>\<open>init_db\<close>, as
  lists of rows in insertion order. Both have an \<^verbatim>\<open>INTEGER PRIMARY KEY AUTOINCREMENT\<close>
  column, for which SQLite keeps the largest key ever handed out (table
  \<^verbatim>\<open>sqlite_sequence\<close>); a new row gets one more than the larger of that value and the
  largest key in the table, and 1 in a table that never held a row. Keys are unbounded
  integers here (SQLite stops at \<open>2\<^sup>6\<^sup>3 - 1\<close>). The tables \<^verbatim>\<open>journal_entries\<close>,
  \<^verbatim>\<open>mood_entries\<close> and \<^verbatim>\<open>posts\<close> are not touched by the functions below and are left out.
  The default of the \<^verbatim>\<open>timestamp\<close> column, \<^verbatim>\<open>CURRENT_TIMESTAMP\<close>, is the clock reading
  passed in as \<open>now\<close>.
\<close>

record users_row =
  u_id :: int
  u_username :: string
  u_password :: string

record screening_results_row =
  r_id :: int
  r_user_id :: int
  r_test_type :: string
  r_timestamp :: string
  r_score :: int
  r_category :: string

record db =
  users :: "users_row list"
  users_seq :: int
  screening_results :: "screening_results_row list"
  screening_results_seq :: int

definition init_db :: db where
  "init_db = \<lparr>users = [], users_seq = 0, screening_results = [], screening_results_seq = 0\<rparr>"

definition next_rowid :: "int list \<Rightarrow> int \<Rightarrow> int" where
  "next_rowid ids seq = max seq (fold max ids 0) + 1"

section \<open>Authentication helpers\<close>

text \<open>
  \<^verbatim>\<open>signup\<close>: the \<^verbatim>\<open>INSERT\<close> raises \<^verbatim>\<open>sqlite3.IntegrityError\<close> exactly when the
  \<^verbatim>\<open>UNIQUE\<close> constraint on \<^verbatim>\<open>username\<close> is violated (both values are Python strings, so
  \<^verbatim>\<open>NOT NULL\<close> holds); the statement is then rolled back and \<^verbatim>\<open>False\<close> is returned.
\<close>

definition signup :: "config \<Rightarrow> db \<Rightarrow> string \<Rightarrow> string \<Rightarrow> bool \<times> db" where
  "signup cfg d uname password =
     (if uname \<in> set (map u_username (users d)) then (False, d)
      else
        let i = next_rowid (map u_id (users d)) (users_seq d) in
        (True,
         d\<lparr>users := users d @
              [\<lparr>u_id = i, u_username = uname, u_password = hash_password cfg password\<rparr>],
           users_seq := i\<rparr>))"

text \<open>
  \<^verbatim>\<open>login\<close>: \<^verbatim>\<open>fetchone()\<close> of
  \<^verbatim>\<open>SELECT * FROM users WHERE username = ? AND password = ?\<close> is the first matching row,
  or \<^verbatim>\<open>None\<close>.
\<close>

definition login :: "config \<Rightarrow> db \<Rightarrow> string \<Rightarrow> string \<Rightarrow> users_row option" where
  "login cfg d uname password =
     find (\<lambda>r. u_username r = uname \<and> u_password r = hash_password cfg password) (users d)"

section \<open>Session state\<close>

text \<open>
  The keys of \<^verbatim>\<open>st.session_state\<close> that \<^verbatim>\<open>main\<close> uses. \<^verbatim>\<open>username\<close> and
  \<^verbatim>\<open>user_id\<close> may be absent (\<open>None\<close>): \<^verbatim>\<open>main\<close> does not initialise them and the
  logout handler deletes them. Any other key (the chat messages, widget state) lives in
  the extension part of the record, which no function below changes.
\<close>

record session =
  logged_in :: bool
  is_moderator :: bool
  current_page :: string
  username :: "string option"
  user_id :: "int option"

definition new_session :: session where
  "new_session =
     \<lparr>logged_in = False, is_moderator = False, current_page = ''Home'',
      username = None, user_id = None\<rparr>"

text \<open>
  The handlers of the sidebar return the session state together with the error raised
  or reported, if any: session state survives an exception. The sidebar shows the logout
  button when \<^verbatim>\<open>logged_in\<close> is set and the two forms otherwise.

  The sidebar of a logged-in session with the logout button pressed, lines 406--413.
  The line above the button formats \<^verbatim>\<open>st.session_state.username\<close> and raises
  \<^verbatim>\<open>AttributeError\<close> when the key is absent, before anything is changed; so does
  \<^verbatim>\<open>del\<close> of an absent \<^verbatim>\<open>user_id\<close>, after the other four changes.
\<close>

definition logout :: "'a session_scheme \<Rightarrow> 'a session_scheme \<times> error option" where
  "logout s =
     (if username s = None then (s, Some AttributeError)
      else
        let s1 = s\<lparr>logged_in := False, is_moderator := False, current_page := ''Home'',
                   username := None\<rparr> in
        if user_id s1 = None then (s1, Some AttributeError)
        else (s1\<lparr>user_id := None\<rparr>, None))"

text \<open>Login form, lines 419--434.\<close>

definition login_form ::
  "config \<Rightarrow> db \<Rightarrow> 'a session_scheme \<Rightarrow> string \<Rightarrow> string \<Rightarrow> 'a session_scheme \<times> error option"
where
  "login_form cfg d s uname password =
     (if uname = ''moderator'' \<and> password = MOD_PASSWORD cfg then
        (s\<lparr>logged_in := True, is_moderator := True,
           username := Some ''moderator'', user_id := Some 0\<rparr>, None)
      else
        case login cfg d uname password of
          Some user \<Rightarrow>
            (s\<lparr>logged_in := True, username := Some (u_username user),
               user_id := Some (u_id user)\<rparr>, None)
        | None \<Rightarrow> (s, Some InvalidCredentials))"

text \<open>
  Sign-up form, lines 440--444: the session state is not touched, the store is; the
  boolean is \<^verbatim>\<open>True\<close> for "Account created" and \<^verbatim>\<open>False\<close> for "Username already exists".
\<close>

definition signup_form :: "config \<Rightarrow> db \<Rightarrow> string \<Rightarrow> string \<Rightarrow> bool \<times> db" where
  "signup_form cfg d new_username new_password = signup cfg d new_username new_password"

text \<open>The stores that the program can build: from \<^verbatim>\<open>init_db\<close>, by sign-ups.\<close>

fun signups :: "config \<Rightarrow> db \<Rightarrow> (string \<times> string) list \<Rightarrow> db" where
  "signups cfg d [] = d"
| "signups cfg d ((uname, password) # rest) = signups cfg (snd (signup cfg d uname password)) rest"

text \<open>
  The invariant of the credential store that the proofs below carry along sign-ups: the
  sequence value is not negative, every key is at least 1 and no username occurs twice.
\<close>

definition store_ok :: "db \<Rightarrow> bool" where
  "store_ok d \<longleftrightarrow>
     0 \<le> users_seq d \<and> (\<forall>r\<in>set (users d). 1 \<le> u_id r) \<and> distinct (map u_username (users d))"

section \<open>Page routing\<close>

text \<open>
  Lines 447--500. \<^verbatim>\<open>pages\<close> is the dictionary of the source, in insertion order; the
  entry of \<^verbatim>\<open>"Home"\<close> holds \<^verbatim>\<open>None\<close>. What \<^verbatim>\<open>main\<close> renders in the page area is a
  \<open>view\<close>: the welcome text for a visitor who is not logged in, the home view with its
  feature buttons, or the "Back to Home" button followed by the selected page function,
  when \<^verbatim>\<open>pages.get\<close> returns one. The home view formats \<^verbatim>\<open>st.session_state.username\<close>
  into its title.
\<close>

datatype page_function =
  JournalPage | MoodTrackerPage | ScreeningPage | ConnectPage | ChatbotPage | ResourcesPage

definition pages :: "(string \<times> page_function option) list" where
  "pages =
     [(''Home'', None),
      (''My Journal'', Some JournalPage),
      (''Mood Tracker'', Some MoodTrackerPage),
      (''Self-Screening'', Some ScreeningPage),
      (''Connect'', Some ConnectPage),
      (''AI Companion'', Some ChatbotPage),
      (''Resources'', Some ResourcesPage)]"

datatype view =
  WelcomeView
| HomeView string "string list"
| BackButtonThen "page_function option"

definition route :: "'a session_scheme \<Rightarrow> error + view" where
  "route s =
     (if \<not> logged_in s then Inr WelcomeView
      else if current_page s = ''Home'' then
        (case username s of
           None \<Rightarrow> Inl AttributeError
         | Some u \<Rightarrow> Inr (HomeView u (tl (map fst pages))))
      else
        Inr (BackButtonThen
              (case map_of pages (current_page s) of
                 None \<Rightarrow> None
               | Some page_function \<Rightarrow> page_function)))"

text \<open>The two navigation buttons, lines 486--488 and 493--495.\<close>

definition go_to :: "string \<Rightarrow> 'a session_scheme \<Rightarrow> 'a session_scheme" where
  "go_to feature s = s\<lparr>current_page := feature\<rparr>"

definition back_to_home :: "'a session_scheme \<Rightarrow> 'a session_scheme" where
  "back_to_home s = s\<lparr>current_page := ''Home''\<rparr>"

section \<open>The self-screening page\<close>

text \<open>
  \<^verbatim>\<open>screening_page\<close>, lines 207--294. The two question lists are kept with their texts
  (a dash written as \<open>-\<close>); the page formats them into the widget labels and otherwise uses
  only their number. \<^verbatim>\<open>scores\<close> is the dictionary
  \<^verbatim>\<open>{option: i for i, option in enumerate(options)}\<close>, in which a later duplicate of a key
  would win.
\<close>

definition phq9_questions :: "string list" where
  "phq9_questions =
     [''Little interest or pleasure in doing things'',
      ''Feeling down, depressed, or hopeless'',
      ''Trouble falling or staying asleep, or sleeping too much'',
      ''Feeling tired or having little energy'',
      ''Poor appetite or overeating'',
      ''Feeling bad about yourself - or that you are a failure or have let yourself or your family down'',
      ''Trouble concentrating on things, such as reading the newspaper or watching television'',
      ''Moving or speaking so slowly that other people could have noticed? Or the opposite - being so fidgety or restless that you have been moving around a lot more than usual'',
      ''Thoughts that you would be better off dead or of hurting yourself in some way'']"

definition gad7_questions :: "string list" where
  "gad7_questions =
     [''Feeling nervous, anxious, or on edge'',
      ''Not being able to stop or control worrying'',
      ''Worrying too much about different things'',
      ''Trouble relaxing'',
      ''Being so restless that it is hard to sit still'',
      ''Becoming easily annoyed or irritable'',
      ''Feeling afraid as if something awful might happen'']"

definition options :: "string list" where
  "options = [''Not at all'', ''Several days'', ''More than half the days'', ''Nearly every day'']"

definition scores :: "string \<rightharpoonup> int" where
  "scores = map_of (rev (zip options (map int [0..<length options])))"

text \<open>
  The loop \<^verbatim>\<open>for i, q in enumerate(questions)\<close>, lines 228--231 and 269--272.
  \<open>radio i\<close> is what \<^verbatim>\<open>st.radio\<close> returns for the widget of question \<open>i\<close>: the option
  selected in the browser. \<open>i\<close> is the index of the next question, \<open>results\<close> the list
  built so far.
\<close>

fun collect :: "(nat \<Rightarrow> string) \<Rightarrow> nat \<Rightarrow> string list \<Rightarrow> int list \<Rightarrow> error + int list" where
  "collect radio i [] results = Inr results"
| "collect radio i (q # qs) results =
     (case subscript scores (radio i) of
        Inl e \<Rightarrow> Inl e
      | Inr v \<Rightarrow> collect radio (Suc i) qs (results @ [v]))"

text \<open>The builtin \<^verbatim>\<open>sum\<close>: start at 0 and add the elements from left to right.\<close>

definition py_sum :: "int list \<Rightarrow> int" where
  "py_sum xs = foldl (+) 0 xs"

text \<open>
  An SQLite \<^verbatim>\<open>INTEGER\<close> is a signed 64-bit value. The \<^verbatim>\<open>sqlite3\<close> module refuses to
  bind a Python integer outside that range (\<^verbatim>\<open>OverflowError\<close>), and an
  \<^verbatim>\<open>AUTOINCREMENT\<close> table whose largest key is \<open>2\<^sup>6\<^sup>3 - 1\<close> refuses further rows.
\<close>

definition sqlite_integer :: "int \<Rightarrow> bool" where
  "sqlite_integer x = (- (2 ^ 63) \<le> x \<and> x < 2 ^ 63)"

text \<open>
  \<^verbatim>\<open>INSERT INTO screening_results (user_id, test_type, score, category)\<close>, lines 245--250
  and 285--290. SQLite does not enforce the \<^verbatim>\<open>FOREIGN KEY\<close> clause unless
  \<^verbatim>\<open>PRAGMA foreign_keys\<close> is switched on, and the program never does that. The function
  describes the statement for a user id, a score and a new key that are
  \<open>sqlite_integer\<close>, which covers every session that a login produces and every total
  that a questionnaire reaches; outside that range the statement raises and stores
  nothing, and the function does not describe it.
\<close>

definition save_result :: "db \<Rightarrow> string \<Rightarrow> int \<Rightarrow> string \<Rightarrow> int \<Rightarrow> string \<Rightarrow> db" where
  "save_result d now uid test_type score cat =
     (let i = next_rowid (map r_id (screening_results d)) (screening_results_seq d) in
      d\<lparr>screening_results := screening_results d @
           [\<lparr>r_id = i, r_user_id = uid, r_test_type = test_type, r_timestamp = now,
             r_score = score, r_category = cat\<rparr>],
        screening_results_seq := i\<rparr>)"

text \<open>
  What the page shows after the button: the score (\<^verbatim>\<open>st.subheader\<close>), the category
  (\<^verbatim>\<open>st.write\<close>) and, when \<open>shown_helpline\<close> is set, the warning with
  \<^verbatim>\<open>EMERGENCY_HELPLINE\<close>.
\<close>

record screening_output =
  shown_score :: int
  shown_category :: string
  shown_helpline :: bool

text \<open>
  The body of \<^verbatim>\<open>if st.button("Calculate My PHQ-9 Score")\<close>, lines 234--254, and of its
  GAD-7 twin, lines 275--294, as functions of the list \<open>results\<close>.
\<close>

definition phq9_calculate ::
  "'a session_scheme \<Rightarrow> string \<Rightarrow> int list \<Rightarrow> db \<Rightarrow> error + (db \<times> screening_output)"
where
  "phq9_calculate s now results d =
     (let total_score = py_sum results in
      case phq9_category total_score of
        Inl e \<Rightarrow> Inl e
      | Inr category \<Rightarrow>
          (case user_id s of
             None \<Rightarrow> Inl AttributeError
           | Some uid \<Rightarrow>
               Inr (save_result d now uid ''PHQ-9'' total_score category,
                    \<lparr>shown_score = total_score, shown_category = category,
                     shown_helpline = (total_score \<ge> 10)\<rparr>)))"

definition gad7_calculate ::
  "'a session_scheme \<Rightarrow> string \<Rightarrow> int list \<Rightarrow> db \<Rightarrow> error + (db \<times> screening_output)"
where
  "gad7_calculate s now results d =
     (let total_score = py_sum results in
      case gad7_category total_score of
        Inl e \<Rightarrow> Inl e
      | Inr category \<Rightarrow>
          (case user_id s of
             None \<Rightarrow> Inl AttributeError
           | Some uid \<Rightarrow>
               Inr (save_result d now uid ''GAD-7'' total_score category,
                    \<lparr>shown_score = total_score, shown_category = category,
                     shown_helpline = (total_score \<ge> 10)\<rparr>)))"

text \<open>
  The page: \<open>test\<close> is the value of the select box, \<open>radio key i\<close> the selected option of
  the radio widget with key \<^verbatim>\<open>f"{key}_{i}"\<close>, \<open>button\<close> whether the "Calculate" button
  was pressed in this run. Without the button nothing is computed or stored.
\<close>

definition screening_page ::
  "'a session_scheme \<Rightarrow> string \<Rightarrow> string \<Rightarrow> (string \<Rightarrow> nat \<Rightarrow> string) \<Rightarrow> bool \<Rightarrow> db
     \<Rightarrow> error + (db \<times> screening_output option)"
where
  "screening_page s now test radio button d =
     (if test = ''PHQ-9 (Depression)'' then
        (case collect (radio ''phq9'') 0 phq9_questions [] of
           Inl e \<Rightarrow> Inl e
         | Inr results \<Rightarrow>
             if button then
               (case phq9_calculate s now results d of
                  Inl e \<Rightarrow> Inl e
                | Inr (d', out) \<Rightarrow> Inr (d', Some out))
             else Inr (d, None))
      else if test = ''GAD-7 (Anxiety)'' then
        (case collect (radio ''gad7'') 0 gad7_questions [] of
           Inl e \<Rightarrow> Inl e
         | Inr results \<Rightarrow>
             if button then
               (case gad7_calculate s now results d of
                  Inl e \<Rightarrow> Inl e
                | Inr (d', out) \<Rightarrow> Inr (d', Some out))
             else Inr (d, None))
      else Inr (d, None))"

section \<open>Basic facts\<close>

lemma phq9_category_bands:
  "phq9_category t =
     Inr (if 0 \<le> t \<and> t < 10 then ''None to Mild Depression''
          else if 10 \<le> t \<and> t < 15 then ''Moderate Depression''
          else if 15 \<le> t \<and> t < 20 then ''Moderately Severe Depression''
          else if 20 \<le> t \<and> t < 100 then ''Severe Depression''
          else ''Unknown'')"
  by (simp add: phq9_category_def subscript_def PHQ9_THRESHOLDS_def in_range_def)

lemma gad7_category_bands:
  "gad7_category t =
     Inr (if 0 \<le> t \<and> t < 10 then ''None to Mild Anxiety''
          else if 10 \<le> t \<and> t < 15 then ''Moderate Anxiety''
          else if 15 \<le> t \<and> t < 22 then ''Severe Anxiety''
          else ''Unknown'')"
  by (simp add: gad7_category_def subscript_def GAD7_THRESHOLDS_def in_range_def)

lemma py_sum_eq: "py_sum xs = sum_list xs"
proof -
  have "foldl (+) a xs = a + sum_list xs" for a :: int
    by (induction xs arbitrary: a) (simp_all add: add.assoc)
  then show ?thesis by (simp add: py_sum_def)
qed

lemma sum_list_bounds:
  fixes xs :: "int list"
  assumes "\<forall>x\<in>set xs. 0 \<le> x \<and> x \<le> 3"
  shows "0 \<le> sum_list xs \<and> sum_list xs \<le> 3 * int (length xs)"
  using assms by (induction xs) auto

lemma scores_eval:
  "scores k = (if k = ''Not at all'' then Some 0
               else if k = ''Several days'' then Some 1
               else if k = ''More than half the days'' then Some 2
               else if k = ''Nearly every day'' then Some 3
               else None)"
  by (simp add: scores_def options_def upt_rec)

lemma scores_range: "scores k = Some v \<Longrightarrow> 0 \<le> v \<and> v \<le> 3"
  by (simp add: scores_eval split: if_splits)

lemma scores_dom: "k \<in> set options \<Longrightarrow> \<exists>v. scores k = Some v"
  by (auto simp add: scores_eval options_def)

lemma collect_shape:
  "collect radio i qs acc = Inr results \<Longrightarrow>
     \<exists>rs. results = acc @ rs \<and> length rs = length qs \<and> (\<forall>x\<in>set rs. 0 \<le> x \<and> x \<le> 3)"
proof (induction qs arbitrary: i acc)
  case Nil
  then show ?case by simp
next
  case (Cons q qs)
  from Cons.prems obtain v where v: "scores (radio i) = Some v"
    and rest: "collect radio (Suc i) qs (acc @ [v]) = Inr results"
    by (auto simp: subscript_def split: option.splits)
  from Cons.IH[OF rest] obtain rs where
    rs: "results = (acc @ [v]) @ rs" "length rs = length qs" "\<forall>x\<in>set rs. 0 \<le> x \<and> x \<le> 3"
    by blast
  have "results = acc @ (v # rs)" using rs(1) by simp
  moreover have "length (v # rs) = length (q # qs)" using rs(2) by simp
  moreover have "\<forall>x\<in>set (v # rs). 0 \<le> x \<and> x \<le> 3" using rs(3) scores_range[OF v] by simp
  ultimately show ?case by blast
qed

lemma collect_defined:
  "(\<forall>k<length qs. radio (i + k) \<in> set options) \<Longrightarrow> \<exists>results. collect radio i qs acc = Inr results"
proof (induction qs arbitrary: i acc)
  case Nil
  then show ?case by simp
next
  case (Cons q qs)
  have "radio i \<in> set options" using Cons.prems by force
  then obtain v where v: "scores (radio i) = Some v" using scores_dom by blast
  have "\<forall>k<length qs. radio (Suc i + k) \<in> set options"
    using Cons.prems by force
  from Cons.IH[OF this] show ?case using v by (simp add: subscript_def)
qed

lemma phq9_category_defined: "\<exists>c. phq9_category t = Inr c"
  by (simp add: phq9_category_bands)

lemma gad7_category_defined: "\<exists>c. gad7_category t = Inr c"
  by (simp add: gad7_category_bands)

lemma phq9_calculate_eq:
  "user_id s = Some uid \<Longrightarrow> phq9_category (sum_list results) = Inr c \<Longrightarrow>
   phq9_calculate s now results d =
     Inr (save_result d now uid ''PHQ-9'' (sum_list results) c,
          \<lparr>shown_score = sum_list results, shown_category = c,
           shown_helpline = (10 \<le> sum_list results)\<rparr>)"
  by (simp add: phq9_calculate_def py_sum_eq Let_def)

lemma gad7_calculate_eq:
  "user_id s = Some uid \<Longrightarrow> gad7_category (sum_list results) = Inr c \<Longrightarrow>
   gad7_calculate s now results d =
     Inr (save_result d now uid ''GAD-7'' (sum_list results) c,
          \<lparr>shown_score = sum_list results, shown_category = c,
           shown_helpline = (10 \<le> sum_list results)\<rparr>)"
  by (simp add: gad7_calculate_def py_sum_eq Let_def)

lemma save_result_rows:
  "screening_results (save_result d now uid test_type score cat) =
     screening_results d @
       [\<lparr>r_id = next_rowid (map r_id (screening_results d)) (screening_results_seq d),
         r_user_id = uid, r_test_type = test_type, r_timestamp = now,
         r_score = score, r_category = cat\<rparr>]"
  and save_result_users: "users (save_result d now uid test_type score cat) = users d"
  by (simp_all add: save_result_def Let_def)

text \<open>
  The page as a whole: when every radio widget returns one of the four options, as
  \<^verbatim>\<open>st.radio\<close> does, the loop raises nothing, and pressing the button runs the
  calculation on a list of nine (seven) answers between 0 and 3.
\<close>

lemma screening_page_submit:
  assumes "\<forall>i. radio ''phq9'' i \<in> set options" and "\<forall>i. radio ''gad7'' i \<in> set options"
  shows
  "\<exists>results. length results = 9 \<and> (\<forall>x\<in>set results. 0 \<le> x \<and> x \<le> 3) \<and>
     screening_page s now ''PHQ-9 (Depression)'' radio True d =
       map_sum id (\<lambda>(d', out). (d', Some out)) (phq9_calculate s now results d)"
  "\<exists>results. length results = 7 \<and> (\<forall>x\<in>set results. 0 \<le> x \<and> x \<le> 3) \<and>
     screening_page s now ''GAD-7 (Anxiety)'' radio True d =
       map_sum id (\<lambda>(d', out). (d', Some out)) (gad7_calculate s now results d)"
proof -
  obtain rs where rs: "collect (radio ''phq9'') 0 phq9_questions [] = Inr rs"
    using collect_defined[of phq9_questions "radio ''phq9''" 0 "[]"] assms(1) by auto
  from collect_shape[OF rs]
  have "length rs = 9 \<and> (\<forall>x\<in>set rs. 0 \<le> x \<and> x \<le> 3)"
    by (auto simp add: phq9_questions_def)
  moreover have "screening_page s now ''PHQ-9 (Depression)'' radio True d =
       map_sum id (\<lambda>(d', out). (d', Some out)) (phq9_calculate s now rs d)"
    by (cases "phq9_calculate s now rs d") (auto simp add: screening_page_def rs)
  ultimately show "\<exists>results. length results = 9 \<and> (\<forall>x\<in>set results. 0 \<le> x \<and> x \<le> 3) \<and>
     screening_page s now ''PHQ-9 (Depression)'' radio True d =
       map_sum id (\<lambda>(d', out). (d', Some out)) (phq9_calculate s now results d)"
    by blast
next
  obtain rs where rs: "collect (radio ''gad7'') 0 gad7_questions [] = Inr rs"
    using collect_defined[of gad7_questions "radio ''gad7''" 0 "[]"] assms(2) by auto
  from collect_shape[OF rs]
  have "length rs = 7 \<and> (\<forall>x\<in>set rs. 0 \<le> x \<and> x \<le> 3)"
    by (auto simp add: gad7_questions_def)
  moreover have "screening_page s now ''GAD-7 (Anxiety)'' radio True d =
       map_sum id (\<lambda>(d', out). (d', Some out)) (gad7_calculate s now rs d)"
    by (cases "gad7_calculate s now rs d") (auto simp add: screening_page_def rs)
  ultimately show "\<exists>results. length results = 7 \<and> (\<forall>x\<in>set results. 0 \<le> x \<and> x \<le> 3) \<and>
     screening_page s now ''GAD-7 (Anxiety)'' radio True d =
       map_sum id (\<lambda>(d', out). (d', Some out)) (gad7_calculate s now results d)"
    by blast
qed

lemma screening_page_no_button:
  "screening_page s now test radio False d = Inr (d', out) \<Longrightarrow> d' = d \<and> out = None"
  by (auto simp add: screening_page_def split: if_splits sum.splits)

lemma find_unique_row:
  assumes "distinct (map u_username rows)" and "r \<in> set rows" and "P r"
    and "\<And>x. P x \<Longrightarrow> u_username x = u_username r"
  shows "find P rows = Some r"
  using assms(1,2)
proof (induction rows)
  case Nil
  then show ?case by simp
next
  case (Cons x rows)
  show ?case
  proof (cases "x = r")
    case True
    then show ?thesis using assms(3) by simp
  next
    case False
    then have mem: "r \<in> set rows" using Cons.prems(2) by simp
    have "u_username x \<noteq> u_username r"
      using Cons.prems(1) mem by auto
    then have "\<not> P x" using assms(4) by blast
    moreover have "find P rows = Some r"
      using Cons.IH Cons.prems(1) mem by simp
    ultimately show ?thesis by simp
  qed
qed

lemma login_stored_row:
  assumes "distinct (map u_username (users d))" and "r \<in> set (users d)"
    and "u_username r = uname" and "u_password r = hash_password cfg password"
  shows "login cfg d uname password = Some r"
  unfolding login_def
  by (rule find_unique_row[OF assms(1,2)]) (simp_all add: assms(3,4))

lemma login_no_row:
  assumes "\<forall>r\<in>set (users d). \<not> (u_username r = uname \<and> u_password r = hash_password cfg password)"
  shows "login cfg d uname password = None"
  using assms by (simp add: login_def find_None_iff)

lemma next_rowid_pos: "0 \<le> seq \<Longrightarrow> 1 \<le> next_rowid ids seq"
  by (simp add: next_rowid_def)

lemma store_ok_init: "store_ok init_db"
  by (simp add: store_ok_def init_db_def)

lemma store_ok_signup: "store_ok d \<Longrightarrow> store_ok (snd (signup cfg d uname password))"
  using next_rowid_pos[of "users_seq d" "map u_id (users d)"]
  by (auto simp add: store_ok_def signup_def Let_def)

lemma store_ok_signups: "store_ok d \<Longrightarrow> store_ok (signups cfg d ops)"
  by (induction ops arbitrary: d) (auto simp add: store_ok_signup)

lemma login_form_authenticated:
  "login_form cfg d s uname password = (s', None) \<Longrightarrow>
     logged_in s' \<and> username s' \<noteq> None \<and> user_id s' \<noteq> None"
  by (auto simp add: login_form_def split: if_splits option.splits)

lemma signups_example:
  "users (signups \<lparr>hash_password = rev, MOD_PASSWORD = ''modpass123''\<rparr> init_db
            [(''alice'', ''secret''), (''alice'', ''again''), (''bob'', ''hunter2'')]) =
   [\<lparr>u_id = 1, u_username = ''alice'', u_password = ''terces''\<rparr>,
    \<lparr>u_id = 2, u_username = ''bob'', u_password = ''2retnuh''\<rparr>]"
  by (simp add: signup_def init_db_def next_rowid_def Let_def)

section \<open>The claims\<close>

text \<open>
  C1, as the claim states it, fails: the last band of each table is bounded in the
  source (\<^verbatim>\<open>range(20, 100)\<close> and \<^verbatim>\<open>range(15, 22)\<close>), so the totals 100 (PHQ-9) and
  22 (GAD-7) are not negative and still receive the fallback label.
\<close>

theorem severe_band_is_bounded:
  "(0::int) \<le> 100 \<and> phq9_category 100 = Inr ''Unknown'' \<and>
   (0::int) \<le> 22 \<and> gad7_category 22 = Inr ''Unknown''"
  by (simp add: phq9_category_bands gad7_category_bands)

text \<open>
  C1, amended. The categorize step assigns exactly one label to every integer total.
  PHQ-9: \<open>[0,10)\<close> "None to Mild", \<open>[10,15)\<close> "Moderate", \<open>[15,20)\<close> "Moderately Severe",
  \<open>[20,100)\<close> "Severe". GAD-7: \<open>[0,10)\<close> "None to Mild", \<open>[10,15)\<close> "Moderate",
  \<open>[15,22)\<close> "Severe". The fallback label "Unknown" is produced exactly for the totals
  outside \<open>[0,100)\<close> (PHQ-9) and outside \<open>[0,22)\<close> (GAD-7), hence for no total that a
  questionnaire can reach (at most 27 and 21). The witness evaluates the boundary totals
  9, 10, 14, 15, 19, 20 and the two maxima.
\<close>

theorem bands_of_both_instruments:
  fixes t :: int
  shows
  "(0 \<le> t \<and> t < 10 \<longrightarrow> phq9_category t = Inr ''None to Mild Depression'') \<and>
   (10 \<le> t \<and> t < 15 \<longrightarrow> phq9_category t = Inr ''Moderate Depression'') \<and>
   (15 \<le> t \<and> t < 20 \<longrightarrow> phq9_category t = Inr ''Moderately Severe Depression'') \<and>
   (20 \<le> t \<and> t < 100 \<longrightarrow> phq9_category t = Inr ''Severe Depression'') \<and>
   (phq9_category t = Inr ''Unknown'' \<longleftrightarrow> t < 0 \<or> 100 \<le> t) \<and>
   (0 \<le> t \<and> t < 10 \<longrightarrow> gad7_category t = Inr ''None to Mild Anxiety'') \<and>
   (10 \<le> t \<and> t < 15 \<longrightarrow> gad7_category t = Inr ''Moderate Anxiety'') \<and>
   (15 \<le> t \<and> t < 22 \<longrightarrow> gad7_category t = Inr ''Severe Anxiety'') \<and>
   (gad7_category t = Inr ''Unknown'' \<longleftrightarrow> t < 0 \<or> 22 \<le> t)"
  by (simp add: phq9_category_bands gad7_category_bands)

theorem bands_of_both_instruments_witness:
  "phq9_category 9 = Inr ''None to Mild Depression'' \<and>
   phq9_category 10 = Inr ''Moderate Depression'' \<and>
   phq9_category 14 = Inr ''Moderate Depression'' \<and>
   phq9_category 15 = Inr ''Moderately Severe Depression'' \<and>
   phq9_category 19 = Inr ''Moderately Severe Depression'' \<and>
   phq9_category 20 = Inr ''Severe Depression'' \<and>
   phq9_category 27 = Inr ''Severe Depression'' \<and>
   gad7_category 9 = Inr ''None to Mild Anxiety'' \<and>
   gad7_category 10 = Inr ''Moderate Anxiety'' \<and>
   gad7_category 14 = Inr ''Moderate Anxiety'' \<and>
   gad7_category 15 = Inr ''Severe Anxiety'' \<and>
   gad7_category 21 = Inr ''Severe Anxiety''"
  using bands_of_both_instruments[of 9] bands_of_both_instruments[of 10]
    bands_of_both_instruments[of 14] bands_of_both_instruments[of 15]
    bands_of_both_instruments[of 19] bands_of_both_instruments[of 20]
    bands_of_both_instruments[of 27] bands_of_both_instruments[of 21]
  by simp

text \<open>
  C2. For both instruments the crisis prompt (the warning followed by the helpline text)
  is shown if and only if the total score is at least 10. The decision is taken on the
  total itself: the statement holds for every list of answers, whatever category label
  the total receives.
\<close>

theorem helpline_iff_total_ge_10:
  assumes "user_id s = Some uid"
  shows "(\<exists>d' out. phq9_calculate s now results d = Inr (d', out) \<and>
            (shown_helpline out \<longleftrightarrow> 10 \<le> sum_list results)) \<and>
         (\<exists>d' out. gad7_calculate s now results d = Inr (d', out) \<and>
            (shown_helpline out \<longleftrightarrow> 10 \<le> sum_list results))"
proof -
  obtain c1 where c1: "phq9_category (sum_list results) = Inr c1"
    using phq9_category_defined by blast
  obtain c2 where c2: "gad7_category (sum_list results) = Inr c2"
    using gad7_category_defined by blast
  show ?thesis
    by (simp add: phq9_calculate_eq[OF assms c1] gad7_calculate_eq[OF assms c2])
qed

theorem helpline_iff_total_ge_10_witness:
  "(\<exists>d' out.
      phq9_calculate
        \<lparr>logged_in = True, is_moderator = False, current_page = ''Self-Screening'',
         username = Some ''alice'', user_id = Some 1\<rparr>
        ''2024-01-01 10:00:00'' [3, 3, 3, 1, 0, 0, 0, 0, 0] init_db = Inr (d', out) \<and>
      shown_helpline out) \<and>
   (\<exists>d' out.
      gad7_calculate
        \<lparr>logged_in = True, is_moderator = False, current_page = ''Self-Screening'',
         username = Some ''alice'', user_id = Some 1\<rparr>
        ''2024-01-01 10:00:00'' [3, 3, 3, 0, 0, 0, 0] init_db = Inr (d', out) \<and>
      \<not> shown_helpline out)"
  using
    helpline_iff_total_ge_10[of
      "\<lparr>logged_in = True, is_moderator = False, current_page = ''Self-Screening'',
        username = Some ''alice'', user_id = Some 1\<rparr>"
      1 "''2024-01-01 10:00:00''" "[3, 3, 3, 1, 0, 0, 0, 0, 0]" init_db]
    helpline_iff_total_ge_10[of
      "\<lparr>logged_in = True, is_moderator = False, current_page = ''Self-Screening'',
        username = Some ''alice'', user_id = Some 1\<rparr>"
      1 "''2024-01-01 10:00:00''" "[3, 3, 3, 0, 0, 0, 0]" init_db]
  by auto

text \<open>
  C3. For every valid response sequence (each answer in \<open>{0,1,2,3}\<close>; nine answers for
  PHQ-9, seven for GAD-7) the total that is shown and stored is the sum of the answers,
  and it lies in \<open>[0,27]\<close> for PHQ-9 and in \<open>[0,21]\<close> for GAD-7.
\<close>

theorem total_is_sum_in_range:
  assumes "user_id s = Some uid" and "\<forall>x\<in>set results. 0 \<le> x \<and> x \<le> 3"
  shows
  "(length results = 9 \<longrightarrow>
      (\<exists>d' out. phq9_calculate s now results d = Inr (d', out) \<and>
         shown_score out = sum_list results \<and>
         r_score (last (screening_results d')) = sum_list results \<and>
         0 \<le> shown_score out \<and> shown_score out \<le> 27)) \<and>
   (length results = 7 \<longrightarrow>
      (\<exists>d' out. gad7_calculate s now results d = Inr (d', out) \<and>
         shown_score out = sum_list results \<and>
         r_score (last (screening_results d')) = sum_list results \<and>
         0 \<le> shown_score out \<and> shown_score out \<le> 21))"
proof -
  obtain c1 where c1: "phq9_category (sum_list results) = Inr c1"
    using phq9_category_defined by blast
  obtain c2 where c2: "gad7_category (sum_list results) = Inr c2"
    using gad7_category_defined by blast
  have b: "0 \<le> sum_list results \<and> sum_list results \<le> 3 * int (length results)"
    using sum_list_bounds[OF assms(2)] .
  show ?thesis
    using b
    by (simp add: phq9_calculate_eq[OF assms(1) c1] gad7_calculate_eq[OF assms(1) c2]
        save_result_rows)
qed

theorem total_is_sum_in_range_witness:
  "(\<exists>d' out.
      phq9_calculate
        \<lparr>logged_in = True, is_moderator = False, current_page = ''Self-Screening'',
         username = Some ''alice'', user_id = Some 1\<rparr>
        ''2024-01-01 10:00:00'' [3, 3, 3, 3, 3, 3, 3, 3, 3] init_db = Inr (d', out) \<and>
      shown_score out = 27) \<and>
   (\<exists>d' out.
      gad7_calculate
        \<lparr>logged_in = True, is_moderator = False, current_page = ''Self-Screening'',
         username = Some ''alice'', user_id = Some 1\<rparr>
        ''2024-01-01 10:00:00'' [0, 1, 2, 3, 0, 1, 2] init_db = Inr (d', out) \<and>
      shown_score out = 9)"
  using
    total_is_sum_in_range[of
      "\<lparr>logged_in = True, is_moderator = False, current_page = ''Self-Screening'',
        username = Some ''alice'', user_id = Some 1\<rparr>"
      1 "[3, 3, 3, 3, 3, 3, 3, 3, 3]" "''2024-01-01 10:00:00''" init_db]
    total_is_sum_in_range[of
      "\<lparr>logged_in = True, is_moderator = False, current_page = ''Self-Screening'',
        username = Some ''alice'', user_id = Some 1\<rparr>"
      1 "[0, 1, 2, 3, 0, 1, 2]" "''2024-01-01 10:00:00''" init_db]
  by auto

text \<open>
  C4, as the claim states it, fails: the source has no validation step and no
  \<open>MalformedResponse\<close> error. A sequence of the wrong length with an answer outside
  \<open>{0,1,2,3}\<close> is scored and stored like any other.
\<close>

theorem malformed_response_is_scored:
  "length [5::int] \<noteq> 9 \<and> \<not> (5::int) \<le> 3 \<and>
   phq9_calculate
     \<lparr>logged_in = True, is_moderator = False, current_page = ''Self-Screening'',
      username = Some ''alice'', user_id = Some 1\<rparr>
     ''2024-01-01 10:00:00'' [5] init_db =
   Inr (\<lparr>users = [], users_seq = 0,
         screening_results =
           [\<lparr>r_id = 1, r_user_id = 1, r_test_type = ''PHQ-9'',
             r_timestamp = ''2024-01-01 10:00:00'', r_score = 5,
             r_category = ''None to Mild Depression''\<rparr>],
         screening_results_seq = 1\<rparr>,
        \<lparr>shown_score = 5, shown_category = ''None to Mild Depression'',
         shown_helpline = False\<rparr>)"
  by (simp add: phq9_calculate_def py_sum_def phq9_category_bands save_result_def
      init_db_def next_rowid_def)

text \<open>
  C4, amended. The scoring step validates nothing: it accepts every integer sequence, of
  any length and with entries inside or outside \<open>{0,1,2,3}\<close>, whose sum the result store
  can hold (a signed 64-bit integer, as are the user id and the key of the new row). For
  each of them it fails with no error, shows the sum as the score and stores one result.
  Malformed sequences are excluded where the sequence is built instead: the list that
  the page collects from its radio widgets has one entry per question (nine for PHQ-9,
  seven for GAD-7) and every entry is in \<open>{0,1,2,3}\<close>.
\<close>

theorem no_validation_of_responses:
  assumes "user_id s = Some uid"
    and "sqlite_integer uid"
    and "sqlite_integer (sum_list results)"
    and "sqlite_integer (next_rowid (map r_id (screening_results d)) (screening_results_seq d))"
  shows
  "(\<exists>d' out. phq9_calculate s now results d = Inr (d', out) \<and>
      shown_score out = sum_list results \<and>
      length (screening_results d') = Suc (length (screening_results d))) \<and>
   (\<exists>d' out. gad7_calculate s now results d = Inr (d', out) \<and>
      shown_score out = sum_list results \<and>
      length (screening_results d') = Suc (length (screening_results d))) \<and>
   (\<forall>rs. collect (radio ''phq9'') 0 phq9_questions [] = Inr rs \<longrightarrow>
      length rs = 9 \<and> (\<forall>x\<in>set rs. 0 \<le> x \<and> x \<le> 3)) \<and>
   (\<forall>rs. collect (radio ''gad7'') 0 gad7_questions [] = Inr rs \<longrightarrow>
      length rs = 7 \<and> (\<forall>x\<in>set rs. 0 \<le> x \<and> x \<le> 3))"
proof -
  obtain c1 where c1: "phq9_category (sum_list results) = Inr c1"
    using phq9_category_defined by blast
  obtain c2 where c2: "gad7_category (sum_list results) = Inr c2"
    using gad7_category_defined by blast
  have p: "\<exists>d' out. phq9_calculate s now results d = Inr (d', out) \<and>
      shown_score out = sum_list results \<and>
      length (screening_results d') = Suc (length (screening_results d))"
    by (simp add: phq9_calculate_eq[OF assms(1) c1] save_result_rows)
  have g: "\<exists>d' out. gad7_calculate s now results d = Inr (d', out) \<and>
      shown_score out = sum_list results \<and>
      length (screening_results d') = Suc (length (screening_results d))"
    by (simp add: gad7_calculate_eq[OF assms(1) c2] save_result_rows)
  have cp: "length rs = 9 \<and> (\<forall>x\<in>set rs. 0 \<le> x \<and> x \<le> 3)"
    if "collect (radio ''phq9'') 0 phq9_questions [] = Inr rs" for rs
    using collect_shape[OF that] by (auto simp: phq9_questions_def)
  have cg: "length rs = 7 \<and> (\<forall>x\<in>set rs. 0 \<le> x \<and> x \<le> 3)"
    if "collect (radio ''gad7'') 0 gad7_questions [] = Inr rs" for rs
    using collect_shape[OF that] by (auto simp: gad7_questions_def)
  show ?thesis using p g cp cg by blast
qed

theorem no_validation_of_responses_witness:
  "(\<exists>d' out.
      gad7_calculate
        \<lparr>logged_in = True, is_moderator = False, current_page = ''Self-Screening'',
         username = Some ''alice'', user_id = Some 1\<rparr>
        ''2024-01-01 10:00:00'' [7, -2] init_db = Inr (d', out) \<and>
      shown_score out = 5 \<and> length (screening_results d') = 1) \<and>
   collect (\<lambda>i. ''Nearly every day'') 0 gad7_questions [] = Inr [3, 3, 3, 3, 3, 3, 3]"
proof -
  have c: "collect (\<lambda>i. ''Nearly every day'') 0 gad7_questions [] = Inr [3, 3, 3, 3, 3, 3, 3]"
    by (simp add: gad7_questions_def subscript_def scores_eval)
  show ?thesis
    using c
      no_validation_of_responses[where
        s = "\<lparr>logged_in = True, is_moderator = False, current_page = ''Self-Screening'',
              username = Some ''alice'', user_id = Some 1\<rparr>"
        and uid = 1 and now = "''2024-01-01 10:00:00''" and results = "[7, -2]"
        and d = init_db and radio = "\<lambda>k i. ''Nearly every day''"]
    by (auto simp add: init_db_def sqlite_integer_def next_rowid_def)
qed

text \<open>
  C5. The login form tries the reserved identity first and the credential store
  otherwise. Login with the username "moderator" and the configured secret yields an
  authenticated moderator session with the sentinel user id 0, whatever the credential
  store holds. Otherwise, a login whose username and password digest match a stored
  row yields an authenticated session whose username and user id are those of that
  row. Every other attempt (no row with that username, or the digest of the password
  differs from the stored one) is answered with "Invalid username or password" and
  leaves the session state as it was.
\<close>

theorem login_form_outcomes:
  "login_form cfg d s ''moderator'' (MOD_PASSWORD cfg) =
     (s\<lparr>logged_in := True, is_moderator := True,
        username := Some ''moderator'', user_id := Some 0\<rparr>, None) \<and>
   (\<not> (uname = ''moderator'' \<and> password = MOD_PASSWORD cfg) \<longrightarrow>
      (\<forall>r\<in>set (users d).
         distinct (map u_username (users d)) \<and> u_username r = uname \<and>
         u_password r = hash_password cfg password \<longrightarrow>
         login_form cfg d s uname password =
           (s\<lparr>logged_in := True, username := Some (u_username r),
              user_id := Some (u_id r)\<rparr>, None)) \<and>
      ((\<forall>r\<in>set (users d).
          \<not> (u_username r = uname \<and> u_password r = hash_password cfg password)) \<longrightarrow>
         login_form cfg d s uname password = (s, Some InvalidCredentials)))"
proof (intro conjI impI ballI)
  show "login_form cfg d s ''moderator'' (MOD_PASSWORD cfg) =
     (s\<lparr>logged_in := True, is_moderator := True,
        username := Some ''moderator'', user_id := Some 0\<rparr>, None)"
    by (simp add: login_form_def)
next
  fix r
  assume "\<not> (uname = ''moderator'' \<and> password = MOD_PASSWORD cfg)"
  then have other: "(uname = ''moderator'' \<and> password = MOD_PASSWORD cfg) = False" by simp
  assume r: "r \<in> set (users d)"
    and h: "distinct (map u_username (users d)) \<and> u_username r = uname \<and>
         u_password r = hash_password cfg password"
  have "login cfg d uname password = Some r"
    using login_stored_row[of d r uname cfg password] r h by blast
  then show "login_form cfg d s uname password =
           (s\<lparr>logged_in := True, username := Some (u_username r),
              user_id := Some (u_id r)\<rparr>, None)"
    by (simp only: login_form_def other if_False option.case)
next
  assume "\<not> (uname = ''moderator'' \<and> password = MOD_PASSWORD cfg)"
  then have other: "(uname = ''moderator'' \<and> password = MOD_PASSWORD cfg) = False" by simp
  assume none: "\<forall>r\<in>set (users d).
          \<not> (u_username r = uname \<and> u_password r = hash_password cfg password)"
  have "login cfg d uname password = None"
    using login_no_row[OF none] .
  then show "login_form cfg d s uname password = (s, Some InvalidCredentials)"
    by (simp only: login_form_def other if_False option.case)
qed

theorem login_form_outcomes_witness:
  "login_form \<lparr>hash_password = rev, MOD_PASSWORD = ''modpass123''\<rparr>
     \<lparr>users = [\<lparr>u_id = 1, u_username = ''alice'', u_password = ''terces''\<rparr>],
      users_seq = 1, screening_results = [], screening_results_seq = 0\<rparr>
     new_session ''alice'' ''secret'' =
     (\<lparr>logged_in = True, is_moderator = False, current_page = ''Home'',
       username = Some ''alice'', user_id = Some 1\<rparr>, None) \<and>
   login_form \<lparr>hash_password = rev, MOD_PASSWORD = ''modpass123''\<rparr>
     \<lparr>users = [\<lparr>u_id = 1, u_username = ''alice'', u_password = ''terces''\<rparr>],
      users_seq = 1, screening_results = [], screening_results_seq = 0\<rparr>
     new_session ''alice'' ''wrong'' = (new_session, Some InvalidCredentials) \<and>
   login_form \<lparr>hash_password = rev, MOD_PASSWORD = ''modpass123''\<rparr>
     \<lparr>users = [\<lparr>u_id = 1, u_username = ''alice'', u_password = ''terces''\<rparr>],
      users_seq = 1, screening_results = [], screening_results_seq = 0\<rparr>
     new_session ''carol'' ''secret'' = (new_session, Some InvalidCredentials)"
  using
    login_form_outcomes[of "\<lparr>hash_password = rev, MOD_PASSWORD = ''modpass123''\<rparr>"
      "\<lparr>users = [\<lparr>u_id = 1, u_username = ''alice'', u_password = ''terces''\<rparr>],
        users_seq = 1, screening_results = [], screening_results_seq = 0\<rparr>"
      new_session "''alice''" "''secret''"]
    login_form_outcomes[of "\<lparr>hash_password = rev, MOD_PASSWORD = ''modpass123''\<rparr>"
      "\<lparr>users = [\<lparr>u_id = 1, u_username = ''alice'', u_password = ''terces''\<rparr>],
        users_seq = 1, screening_results = [], screening_results_seq = 0\<rparr>"
      new_session "''alice''" "''wrong''"]
    login_form_outcomes[of "\<lparr>hash_password = rev, MOD_PASSWORD = ''modpass123''\<rparr>"
      "\<lparr>users = [\<lparr>u_id = 1, u_username = ''alice'', u_password = ''terces''\<rparr>],
        users_seq = 1, screening_results = [], screening_results_seq = 0\<rparr>"
      new_session "''carol''" "''secret''"]
  by (simp add: new_session_def)

text \<open>
  C6. For every username already present in the credential store, \<^verbatim>\<open>signup\<close> with that
  username returns \<^verbatim>\<open>False\<close> (the sign-up form then reports "Username already exists")
  and returns the store as it was, so the row of that username, with its password
  hash, is unchanged. In particular a second sign-up with the name of a first one is
  rejected, whether the first one succeeded or not.
\<close>

theorem signup_taken_username_rejected:
  assumes "r \<in> set (users d)" and "u_username r = uname"
  shows
  "signup cfg d uname password = (False, d) \<and>
   r \<in> set (users (snd (signup cfg d uname password))) \<and>
   signup cfg (snd (signup cfg d uname first_password)) uname password =
     (False, snd (signup cfg d uname first_password))"
  using assms by (auto simp add: signup_def Let_def)

theorem signup_taken_username_rejected_witness:
  "signup \<lparr>hash_password = rev, MOD_PASSWORD = ''modpass123''\<rparr>
     \<lparr>users = [\<lparr>u_id = 1, u_username = ''alice'', u_password = ''terces''\<rparr>],
      users_seq = 1, screening_results = [], screening_results_seq = 0\<rparr>
     ''alice'' ''other'' =
   (False,
    \<lparr>users = [\<lparr>u_id = 1, u_username = ''alice'', u_password = ''terces''\<rparr>],
     users_seq = 1, screening_results = [], screening_results_seq = 0\<rparr>)"
  using signup_taken_username_rejected[of
      "\<lparr>u_id = 1, u_username = ''alice'', u_password = ''terces''\<rparr>"
      "\<lparr>users = [\<lparr>u_id = 1, u_username = ''alice'', u_password = ''terces''\<rparr>],
        users_seq = 1, screening_results = [], screening_results_seq = 0\<rparr>"
      "''alice''" "\<lparr>hash_password = rev, MOD_PASSWORD = ''modpass123''\<rparr>" "''other''"]
  by simp

text \<open>
  C7. From every authenticated session state (any current page, moderator or not; the
  two login paths set \<^verbatim>\<open>username\<close> and \<^verbatim>\<open>user_id\<close>), the logout button resets the
  session: \<^verbatim>\<open>logged_in\<close> and \<^verbatim>\<open>is_moderator\<close> false, \<^verbatim>\<open>current_page\<close> "Home",
  \<^verbatim>\<open>username\<close> and \<^verbatim>\<open>user_id\<close> deleted, and no error.
\<close>

theorem logout_resets_session:
  assumes "logged_in s" and "username s = Some u" and "user_id s = Some i"
  shows "logout s =
           (s\<lparr>logged_in := False, is_moderator := False, current_page := ''Home'',
              username := None, user_id := None\<rparr>, None) \<and>
         \<not> logged_in (fst (logout s)) \<and> \<not> is_moderator (fst (logout s)) \<and>
         current_page (fst (logout s)) = ''Home'' \<and>
         username (fst (logout s)) = None \<and> user_id (fst (logout s)) = None"
  using assms by (simp add: logout_def Let_def)

theorem logout_resets_session_witness:
  "logout \<lparr>logged_in = True, is_moderator = True, current_page = ''Connect'',
           username = Some ''moderator'', user_id = Some 0\<rparr> = (new_session, None)"
  using logout_resets_session[of
      "\<lparr>logged_in = True, is_moderator = True, current_page = ''Connect'',
        username = Some ''moderator'', user_id = Some 0\<rparr>" "''moderator''" 0]
  by (simp add: new_session_def)

text \<open>
  C8, as the claim states it, fails: for a \<^verbatim>\<open>current_page\<close> that is not a key of
  \<^verbatim>\<open>pages\<close> the page area holds the "Back to Home" button and nothing else, not the home
  view.
\<close>

theorem unrecognized_page_shows_no_home_view:
  "route \<lparr>logged_in = True, is_moderator = False, current_page = ''Settings'',
          username = Some ''alice'', user_id = Some 1\<rparr> = Inr (BackButtonThen None) \<and>
   route \<lparr>logged_in = True, is_moderator = False, current_page = ''Settings'',
          username = Some ''alice'', user_id = Some 1\<rparr> \<noteq>
   route \<lparr>logged_in = True, is_moderator = False, current_page = ''Home'',
          username = Some ''alice'', user_id = Some 1\<rparr>"
  by (simp add: route_def pages_def)

text \<open>
  C8, amended. For an authenticated session the dispatch is a function of
  \<^verbatim>\<open>current_page\<close> (and of the username shown in the home title): "Home" gives the home
  view with the six feature buttons, the name of a registered feature page gives the
  "Back to Home" button followed by the handler registered for it, and any unrecognized
  value gives the "Back to Home" button alone; none of these is an error.
\<close>

theorem route_by_current_page:
  assumes "logged_in s" and "username s = Some u"
  shows
  "(current_page s = ''Home'' \<longrightarrow>
      route s = Inr (HomeView u [''My Journal'', ''Mood Tracker'', ''Self-Screening'',
                                 ''Connect'', ''AI Companion'', ''Resources''])) \<and>
   (\<forall>f. (current_page s, Some f) \<in> set pages \<longrightarrow> route s = Inr (BackButtonThen (Some f))) \<and>
   (current_page s \<notin> fst ` set pages \<longrightarrow> route s = Inr (BackButtonThen None)) \<and>
   (\<forall>s'. logged_in s' \<and> username s' = Some u \<and> current_page s' = current_page s \<longrightarrow>
      route s' = route s)"
proof (intro conjI impI allI)
  assume "current_page s = ''Home''"
  then show "route s = Inr (HomeView u [''My Journal'', ''Mood Tracker'', ''Self-Screening'',
                                 ''Connect'', ''AI Companion'', ''Resources''])"
    using assms by (simp add: route_def pages_def)
next
  fix f assume "(current_page s, Some f) \<in> set pages"
  then show "route s = Inr (BackButtonThen (Some f))"
    using assms by (auto simp add: route_def pages_def)
next
  assume "current_page s \<notin> fst ` set pages"
  then show "route s = Inr (BackButtonThen None)"
    using assms by (simp add: route_def pages_def)
next
  fix s' :: "'b session_scheme"
  assume "logged_in s' \<and> username s' = Some u \<and> current_page s' = current_page s"
  then show "route s' = route s"
    using assms by (simp add: route_def)
qed

theorem route_by_current_page_witness:
  "route \<lparr>logged_in = True, is_moderator = False, current_page = ''Home'',
          username = Some ''alice'', user_id = Some 1\<rparr> =
     Inr (HomeView ''alice'' [''My Journal'', ''Mood Tracker'', ''Self-Screening'',
                             ''Connect'', ''AI Companion'', ''Resources'']) \<and>
   route \<lparr>logged_in = True, is_moderator = False, current_page = ''Self-Screening'',
          username = Some ''alice'', user_id = Some 1\<rparr> =
     Inr (BackButtonThen (Some ScreeningPage)) \<and>
   route \<lparr>logged_in = True, is_moderator = False, current_page = ''Settings'',
          username = Some ''alice'', user_id = Some 1\<rparr> = Inr (BackButtonThen None)"
proof -
  have home:
    "route \<lparr>logged_in = True, is_moderator = False, current_page = ''Home'',
            username = Some ''alice'', user_id = Some 1\<rparr> =
       Inr (HomeView ''alice'' [''My Journal'', ''Mood Tracker'', ''Self-Screening'',
                               ''Connect'', ''AI Companion'', ''Resources''])"
    using route_by_current_page[of
      "\<lparr>logged_in = True, is_moderator = False, current_page = ''Home'',
        username = Some ''alice'', user_id = Some 1\<rparr>" "''alice''", THEN conjunct1]
    by simp
  have feature:
    "route \<lparr>logged_in = True, is_moderator = False, current_page = ''Self-Screening'',
            username = Some ''alice'', user_id = Some 1\<rparr> =
       Inr (BackButtonThen (Some ScreeningPage))"
    using route_by_current_page[of
      "\<lparr>logged_in = True, is_moderator = False, current_page = ''Self-Screening'',
        username = Some ''alice'', user_id = Some 1\<rparr>" "''alice''",
      THEN conjunct2, THEN conjunct1]
    by (simp add: pages_def)
  have other:
    "route \<lparr>logged_in = True, is_moderator = False, current_page = ''Settings'',
            username = Some ''alice'', user_id = Some 1\<rparr> = Inr (BackButtonThen None)"
    using route_by_current_page[of
      "\<lparr>logged_in = True, is_moderator = False, current_page = ''Settings'',
        username = Some ''alice'', user_id = Some 1\<rparr>" "''alice''",
      THEN conjunct2, THEN conjunct2, THEN conjunct1]
    by (simp add: pages_def)
  show ?thesis
    using home feature other by (intro conjI)
qed

text \<open>
  C9. Every completed submission appends exactly one row (user id, instrument, total,
  category) to the result store, whatever the total is (the witness has total 0): the
  rows already stored are kept as they are and in their order, nothing is compared with
  them, and the credential store is not touched.
\<close>

theorem one_result_row_appended:
  assumes "user_id s = Some uid"
  shows
  "(\<exists>d' out. phq9_calculate s now results d = Inr (d', out) \<and>
      screening_results d' = screening_results d @
        [\<lparr>r_id = next_rowid (map r_id (screening_results d)) (screening_results_seq d),
          r_user_id = uid, r_test_type = ''PHQ-9'', r_timestamp = now,
          r_score = sum_list results, r_category = shown_category out\<rparr>] \<and>
      phq9_category (sum_list results) = Inr (shown_category out) \<and>
      users d' = users d) \<and>
   (\<exists>d' out. gad7_calculate s now results d = Inr (d', out) \<and>
      screening_results d' = screening_results d @
        [\<lparr>r_id = next_rowid (map r_id (screening_results d)) (screening_results_seq d),
          r_user_id = uid, r_test_type = ''GAD-7'', r_timestamp = now,
          r_score = sum_list results, r_category = shown_category out\<rparr>] \<and>
      gad7_category (sum_list results) = Inr (shown_category out) \<and>
      users d' = users d)"
proof -
  obtain c1 where c1: "phq9_category (sum_list results) = Inr c1"
    using phq9_category_defined by blast
  obtain c2 where c2: "gad7_category (sum_list results) = Inr c2"
    using gad7_category_defined by blast
  show ?thesis
    by (simp add: phq9_calculate_eq[OF assms c1] gad7_calculate_eq[OF assms c2]
        save_result_rows save_result_users c1 c2)
qed

theorem one_result_row_appended_witness:
  "\<exists>d' out.
     phq9_calculate
       \<lparr>logged_in = True, is_moderator = False, current_page = ''Self-Screening'',
        username = Some ''alice'', user_id = Some 1\<rparr>
       ''2024-01-01 10:00:00'' [0, 0, 0, 0, 0, 0, 0, 0, 0] init_db = Inr (d', out) \<and>
     screening_results d' =
       [\<lparr>r_id = 1, r_user_id = 1, r_test_type = ''PHQ-9'',
         r_timestamp = ''2024-01-01 10:00:00'', r_score = 0,
         r_category = ''None to Mild Depression''\<rparr>]"
  using one_result_row_appended[of
      "\<lparr>logged_in = True, is_moderator = False, current_page = ''Self-Screening'',
        username = Some ''alice'', user_id = Some 1\<rparr>"
      1 "''2024-01-01 10:00:00''" "[0, 0, 0, 0, 0, 0, 0, 0, 0]" init_db]
  by (auto simp add: init_db_def next_rowid_def phq9_category_bands)

text \<open>
  C10. The moderator's sentinel user id 0 is disjoint from every regular user's id: in
  every credential store built from \<^verbatim>\<open>init_db\<close> by sign-ups, the auto-increment key of
  each row is at least 1, hence not 0, and the user id of the session that the moderator
  login yields is 0 and differs from the id of every stored user.
\<close>

theorem moderator_id_not_a_user_id:
  "\<forall>r\<in>set (users (signups cfg init_db ops)).
     1 \<le> u_id r \<and> u_id r \<noteq> 0 \<and>
     is_moderator (fst (login_form cfg d s ''moderator'' (MOD_PASSWORD cfg))) \<and>
     user_id (fst (login_form cfg d s ''moderator'' (MOD_PASSWORD cfg))) = Some 0 \<and>
     user_id (fst (login_form cfg d s ''moderator'' (MOD_PASSWORD cfg))) \<noteq> Some (u_id r)"
proof
  fix r assume r: "r \<in> set (users (signups cfg init_db ops))"
  have "store_ok (signups cfg init_db ops)"
    by (rule store_ok_signups[OF store_ok_init])
  then have "1 \<le> u_id r" using r by (simp add: store_ok_def)
  then show "1 \<le> u_id r \<and> u_id r \<noteq> 0 \<and>
     is_moderator (fst (login_form cfg d s ''moderator'' (MOD_PASSWORD cfg))) \<and>
     user_id (fst (login_form cfg d s ''moderator'' (MOD_PASSWORD cfg))) = Some 0 \<and>
     user_id (fst (login_form cfg d s ''moderator'' (MOD_PASSWORD cfg))) \<noteq> Some (u_id r)"
    by (simp add: login_form_def)
qed

theorem moderator_id_not_a_user_id_witness:
  "\<lparr>u_id = 2, u_username = ''bob'', u_password = ''2retnuh''\<rparr> \<in>
     set (users (signups \<lparr>hash_password = rev, MOD_PASSWORD = ''modpass123''\<rparr> init_db
            [(''alice'', ''secret''), (''alice'', ''again''), (''bob'', ''hunter2'')])) \<and>
   user_id (fst (login_form \<lparr>hash_password = rev, MOD_PASSWORD = ''modpass123''\<rparr> init_db
       new_session ''moderator'' ''modpass123'')) = Some 0"
  using signups_example
    moderator_id_not_a_user_id[of "\<lparr>hash_password = rev, MOD_PASSWORD = ''modpass123''\<rparr>"
      "[(''alice'', ''secret''), (''alice'', ''again''), (''bob'', ''hunter2'')]"
      init_db new_session]
  by simp

end
